theory Spec2Isabelle
  imports Complex_Main
begin

section \<open>Python values used by \<open>discord.py\<close>\<close>

text \<open>
  \<open>bytes\<close> values are lists of 8-bit characters. A Python \<open>str\<close> is represented by its
  UTF-8 encoding, so \<open>s.encode("UTF-8")\<close> is the identity on the representation,
  \<open>b.decode("UTF-8")\<close> either fails or returns the same bytes read as a \<open>str\<close>, and an
  f-string that joins two \<open>str\<close> values is list append.
\<close>

type_synonym bytes = string
type_synonym pystr = string

text \<open>
  The value produced by \<open>json.loads\<close>: \<open>None\<close>, \<open>bool\<close>, \<open>int\<close>, \<open>float\<close> (a finite
  double is a rational; \<open>JNonFinite\<close> stands for \<open>NaN\<close> and the two infinities, which
  \<open>json.loads\<close> accepts), \<open>str\<close>, \<open>list\<close> and \<open>dict\<close> (keys in insertion order).
\<close>

datatype json =
    JNull
  | JBool bool
  | JInt int
  | JFloat rat
  | JNonFinite
  | JStr pystr
  | JArr "json list"
  | JObj "(pystr \<times> json) list"

text \<open>
  Exceptions. \<open>AbortError\<close> is the class of the module; its field \<open>http_code\<close> is the only
  payload. The other classes are the Python built-ins the module raises or lets through;
  \<open>OtherError\<close> is any exception class not named in the module (raised by a library call
  or by user code), with its class name and message.
\<close>

datatype exn =
    AbortError pystr
  | ValueError pystr
  | KeyError json
  | TypeError pystr
  | AttributeError pystr
  | RuntimeWarning pystr
  | OtherError pystr pystr

text \<open>The objects a request handler can hand back to the dispatcher.\<close>

datatype pyobj =
    PongResponse
  | Modal json
  | Message json
  | AutocompleteResult json
  | Value json

text \<open>The three outcomes of \<open>verify_key.verify(message, bytes.fromhex(signature))\<close>.\<close>

datatype vres =
    Verified
  | BadSignatureError
  | Raises exn

text \<open>
  What \<open>Context.from_data\<close> gives the dispatcher: the primary segment of the custom id and
  the context object itself (opaque here, kept as the interaction data it was built from).
\<close>

record Context =
  primary_id :: pystr
  ctx_data :: json

text \<open>
  A custom-id handler is a callable \<open>handler(context, *args)\<close>; a registered command
  offers \<open>make_context_and_run\<close> and \<open>make_context_and_run_autocomplete\<close>. Each either
  returns an object or raises.
\<close>

type_synonym handler = "Context \<Rightarrow> json list \<Rightarrow> exn + pyobj"

record command =
  cmd_description :: pystr
  make_context_and_run :: "json \<Rightarrow> exn + pyobj"
  make_context_and_run_autocomplete :: "json \<Rightarrow> exn + pyobj"

text \<open>
  The behaviour of everything \<open>discord.py\<close> calls but does not define: the standard library
  (\<open>bytes.decode\<close>, \<open>json\<close>, \<open>str()\<close>), PyNaCl (\<open>VerifyKey\<close>), and the sibling modules
  \<open>models\<close> and \<open>context\<close>. They are parameters of the model.
\<close>

record ext =
  decode_utf8 :: "bytes \<Rightarrow> exn + pystr"
  json_loads :: "pystr \<Rightarrow> exn + json"
  json_dumps :: "json \<Rightarrow> pystr"
  json_dumps_compact :: "json \<Rightarrow> pystr"
  str_of :: "json \<Rightarrow> pystr"
  VerifyKey :: "pystr \<Rightarrow> exn option"
  verify :: "pystr \<Rightarrow> bytes \<Rightarrow> pystr \<Rightarrow> vres"
  PONG :: int
  from_data :: "json \<Rightarrow> exn + Context"
  create_handler_args :: "Context \<Rightarrow> handler \<Rightarrow> exn + json list"
  from_return_value :: "pyobj \<Rightarrow> exn + pyobj"
  encode_obj :: "pyobj \<Rightarrow> exn + (pystr \<times> pystr)"

section \<open>Observable steps\<close>

text \<open>
  The dispatcher's steps that the specification orders or counts, logged in program
  order: each Ed25519 check with the message it was given, the warning, the read of the
  interaction type, each registry lookup, each call into user code, each token fetch.
\<close>

datatype event =
    Verify bytes
  | Warn pystr
  | ReadType
  | LookupCommand json
  | LookupHandler pystr
  | RunCommand json
  | RunHandler pystr
  | RunAutocomplete json
  | FetchToken

type_synonym 'a run = "event list \<times> (exn + 'a)"

definition then_do :: "'a run \<Rightarrow> ('a \<Rightarrow> 'b run) \<Rightarrow> 'b run" where
  "then_do m f =
     (case m of
        (t, Inl e) \<Rightarrow> (t, Inl e)
      | (t, Inr v) \<Rightarrow> (case f v of (t', r) \<Rightarrow> (t @ t', r)))"

definition lift :: "exn + 'a \<Rightarrow> 'a run" where
  "lift r = ([], r)"

section \<open>Built-in operations\<close>

definition dec_digit :: "nat \<Rightarrow> char" where
  "dec_digit d = ''0123456789'' ! (d mod 10)"

function dec :: "nat \<Rightarrow> pystr" where
  "dec n = (if n < 10 then [dec_digit n] else dec (n div 10) @ [dec_digit n])"
  by pat_completeness auto
termination
  by (relation "measure id") auto

declare dec.simps [simp del]

definition hex_digit :: "nat \<Rightarrow> char" where
  "hex_digit d = ''0123456789abcdef'' ! (d mod 16)"

text \<open>\<open>repr\<close> of a \<open>bytes\<close> object, which is what an f-string inserts for it.\<close>

definition repr_byte :: "char \<Rightarrow> char \<Rightarrow> pystr" where
  "repr_byte quote c =
     (if c = quote \<or> c = CHR 0x5C then [CHR 0x5C, c]
      else if c = CHR 0x09 then [CHR 0x5C, CHR ''t'']
      else if c = CHR 0x0A then [CHR 0x5C, CHR ''n'']
      else if c = CHR 0x0D then [CHR 0x5C, CHR ''r'']
      else if (of_char c :: nat) < 0x20 \<or> 0x7F \<le> (of_char c :: nat)
        then [CHR 0x5C, CHR ''x'', hex_digit (of_char c div 16), hex_digit (of_char c)]
      else [c])"

definition bytes_repr :: "bytes \<Rightarrow> pystr" where
  "bytes_repr b =
     (let quote = (if CHR 0x27 \<in> set b \<and> CHR 0x22 \<notin> set b then CHR 0x22 else CHR 0x27)
      in [CHR ''b'', quote] @ concat (map (repr_byte quote) b) @ [quote])"

text \<open>\<open>x == n\<close> for a decoded JSON value \<open>x\<close> and an \<open>int\<close> constant \<open>n\<close>.\<close>

definition py_eq_int :: "json \<Rightarrow> int \<Rightarrow> bool" where
  "py_eq_int x n =
     (case x of
        JInt i \<Rightarrow> i = n
      | JBool b \<Rightarrow> (if b then 1 else 0) = n
      | JFloat q \<Rightarrow> q = of_int n
      | _ \<Rightarrow> False)"

text \<open>\<open>x.get(k)\<close>: defined on a \<open>dict\<close> only.\<close>

definition py_get :: "json \<Rightarrow> pystr \<Rightarrow> exn + json" where
  "py_get x k =
     (case x of
        JObj kvs \<Rightarrow> Inr (case map_of kvs k of None \<Rightarrow> JNull | Some v \<Rightarrow> v)
      | _ \<Rightarrow> Inl (AttributeError ''get''))"

text \<open>\<open>x[k]\<close> with a \<open>str\<close> key \<open>k\<close>.\<close>

definition py_item :: "json \<Rightarrow> pystr \<Rightarrow> exn + json" where
  "py_item x k =
     (case x of
        JObj kvs \<Rightarrow> (case map_of kvs k of None \<Rightarrow> Inl (KeyError (JStr k)) | Some v \<Rightarrow> Inr v)
      | _ \<Rightarrow> Inl (TypeError ''subscript''))"

text \<open>
  Hashing a key before a lookup in a \<open>dict\<close> whose keys are \<open>str\<close>: a \<open>list\<close> or \<open>dict\<close> is
  unhashable, a \<open>str\<close> is looked up, any other value is hashable and equal to no \<open>str\<close>.
\<close>

definition dict_find :: "(pystr \<rightharpoonup> 'v) \<Rightarrow> json \<Rightarrow> exn + 'v option" where
  "dict_find d k =
     (case k of
        JStr s \<Rightarrow> Inr (d s)
      | JArr _ \<Rightarrow> Inl (TypeError ''unhashable type'')
      | JObj _ \<Rightarrow> Inl (TypeError ''unhashable type'')
      | _ \<Rightarrow> Inr None)"

text \<open>What an f-string inserts for a decoded JSON value: a \<open>str\<close> as it is.\<close>

definition py_format :: "ext \<Rightarrow> json \<Rightarrow> pystr" where
  "py_format x v = (case v of JStr s \<Rightarrow> s | _ \<Rightarrow> str_of x v)"

section \<open>The module\<close>

subsection \<open>Blueprint and application state\<close>

record blueprint =
  discord_commands :: "pystr \<rightharpoonup> command"
  custom_id_handlers :: "pystr \<rightharpoonup> handler"

record token =
  token_type :: pystr
  scope :: pystr
  expires_in :: rat
  access_token :: pystr
  expires_on :: rat

record discord = blueprint +
  discord_token :: "token option"
  discord_public_key :: pystr
  discord_scope :: pystr
  DONT_REGISTER_WITH_DISCORD :: bool
  DONT_VALIDATE_SIGNATURE :: bool

text \<open>
  The WSGI environment as far as it is read, and the request dictionary \<open>__call__\<close> builds
  from it by adding \<open>json\<close> and \<open>raw_data\<close>.
\<close>

record environ =
  wsgi_input :: "exn + bytes"
  HTTP_X_SIGNATURE_ED25519 :: "pystr option"
  HTTP_X_SIGNATURE_TIMESTAMP :: "pystr option"

record request = environ +
  json :: json
  raw_data :: bytes

record response =
  status :: pystr
  response_headers :: "(pystr \<times> pystr) list"
  body :: "bytes list"

subsection \<open>\<open>abort\<close>\<close>

definition abort :: "nat \<Rightarrow> pystr \<Rightarrow> exn + 'a" where
  "abort code reason = Inl (AbortError (dec code @ '' '' @ reason))"

subsection \<open>\<open>verify_signature\<close>\<close>

definition canonical_message :: "ext \<Rightarrow> pystr \<Rightarrow> bytes \<Rightarrow> exn + bytes" where
  "canonical_message x timestamp raw =
     (case decode_utf8 x raw of
        Inl e \<Rightarrow> Inl e
      | Inr s \<Rightarrow>
          (case json_loads x s of
             Inl e \<Rightarrow> Inl e
           | Inr j \<Rightarrow> (let body = json_dumps_compact x j in Inr (timestamp @ bytes_repr body))))"

definition verify_fallback :: "ext \<Rightarrow> discord \<Rightarrow> pystr \<Rightarrow> pystr \<Rightarrow> bytes \<Rightarrow> unit run" where
  "verify_fallback x self signature timestamp raw =
     (case canonical_message x timestamp raw of
        Inl e \<Rightarrow> ([], Inl e)
      | Inr message \<Rightarrow>
          (case verify x (discord_public_key self) message signature of
             Verified \<Rightarrow>
               ([Verify message,
                 Warn ''The whitespace for the request data may have been modified before being sent to discord-interactions''],
                Inr ())
           | BadSignatureError \<Rightarrow> ([Verify message], abort 401 ''Incorrect Signature'')
           | Raises e \<Rightarrow> ([Verify message], Inl e)))"

definition verify_signature :: "ext \<Rightarrow> discord \<Rightarrow> request \<Rightarrow> unit run" where
  "verify_signature x self request =
     (let signature = HTTP_X_SIGNATURE_ED25519 request;
          timestamp = HTTP_X_SIGNATURE_TIMESTAMP request
      in if DONT_VALIDATE_SIGNATURE self then ([], Inr ())
         else
           (case (signature, timestamp) of
              (Some sg, Some ts) \<Rightarrow>
                (case decode_utf8 x (raw_data request) of
                   Inl e \<Rightarrow> ([], Inl e)
                 | Inr s \<Rightarrow>
                     (let message = ts @ s in
                      case VerifyKey x (discord_public_key self) of
                        Some e \<Rightarrow> ([], Inl e)
                      | None \<Rightarrow>
                          (case verify x (discord_public_key self) message sg of
                             Verified \<Rightarrow> ([Verify message], Inr ())
                           | Raises e \<Rightarrow> ([Verify message], Inl e)
                           | BadSignatureError \<Rightarrow>
                               then_do ([Verify message], Inr ())
                                 (\<lambda>_. verify_fallback x self sg ts (raw_data request)))))
            | _ \<Rightarrow> ([], abort 401 ''Missing signature or timestamp'')))"

subsection \<open>\<open>InteractionType\<close> and \<open>PongResponse\<close>\<close>

definition PING :: int where "PING = 1"
definition APPLICATION_COMMAND :: int where "APPLICATION_COMMAND = 2"
definition MESSAGE_COMPONENT :: int where "MESSAGE_COMPONENT = 3"
definition APPLICATION_COMMAND_AUTOCOMPLETE :: int where "APPLICATION_COMMAND_AUTOCOMPLETE = 4"
definition MODAL_SUBMIT :: int where "MODAL_SUBMIT = 5"

text \<open>
  \<open>result.encode()\<close>: the method of \<open>PongResponse\<close> is in the module, the others are
  methods of the \<open>models\<close> classes.
\<close>

definition encode :: "ext \<Rightarrow> pyobj \<Rightarrow> exn + (pystr \<times> pystr)" where
  "encode x obj =
     (case obj of
        PongResponse \<Rightarrow> Inr (json_dumps x (JObj [(''type'', JInt (PONG x))]), ''application/json'')
      | _ \<Rightarrow> encode_obj x obj)"

subsection \<open>\<open>register_blueprint\<close>\<close>

definition register_blueprint :: "discord \<Rightarrow> 'a blueprint_scheme \<Rightarrow> discord" where
  "register_blueprint self blueprint =
     self\<lparr>discord_commands := discord_commands self ++ discord_commands blueprint,
          custom_id_handlers := custom_id_handlers self ++ custom_id_handlers blueprint\<rparr>"

subsection \<open>\<open>run_command\<close>, \<open>run_handler\<close>, \<open>run_autocomplete\<close>\<close>

definition command_name_of :: "json \<Rightarrow> exn + json" where
  "command_name_of data =
     (case py_item data ''data'' of
        Inl e \<Rightarrow> Inl e
      | Inr d \<Rightarrow> py_item d ''name'')"

definition run_command :: "ext \<Rightarrow> discord \<Rightarrow> json \<Rightarrow> pyobj run" where
  "run_command x self data =
     then_do (lift (command_name_of data)) (\<lambda>command_name.
     then_do ([LookupCommand command_name], dict_find (discord_commands self) command_name) (\<lambda>command.
       case command of
         None \<Rightarrow> lift (Inl (ValueError (''Invalid command name: '' @ py_format x command_name)))
       | Some c \<Rightarrow> ([RunCommand command_name], make_context_and_run c data)))"

definition run_handler :: "ext \<Rightarrow> discord \<Rightarrow> json \<Rightarrow> bool \<Rightarrow> pyobj run" where
  "run_handler x self data allow_modal =
     then_do (lift (from_data x data)) (\<lambda>context.
     then_do ([LookupHandler (primary_id context)],
              case custom_id_handlers self (primary_id context) of
                None \<Rightarrow> Inl (KeyError (JStr (primary_id context)))
              | Some h \<Rightarrow> Inr h) (\<lambda>handler.
     then_do (lift (create_handler_args x context handler)) (\<lambda>args.
     then_do ([RunHandler (primary_id context)], handler context args) (\<lambda>result.
       case result of
         Modal m \<Rightarrow>
           (if allow_modal then lift (Inr result)
            else lift (Inl (ValueError ''Cannot return a Modal to that interaction type.'')))
       | _ \<Rightarrow> lift (from_return_value x result)))))"

definition run_autocomplete :: "ext \<Rightarrow> discord \<Rightarrow> json \<Rightarrow> pyobj run" where
  "run_autocomplete x self data =
     then_do (lift (command_name_of data)) (\<lambda>command_name.
     then_do ([LookupCommand command_name],
              case dict_find (discord_commands self) command_name of
                Inl e \<Rightarrow> Inl e
              | Inr None \<Rightarrow> Inl (KeyError command_name)
              | Inr (Some c) \<Rightarrow> Inr c) (\<lambda>command.
       ([RunAutocomplete command_name], make_context_and_run_autocomplete command data)))"

subsection \<open>\<open>handle_request\<close>\<close>

definition dispatch :: "ext \<Rightarrow> discord \<Rightarrow> request \<Rightarrow> pyobj run" where
  "dispatch x self request =
     then_do ([ReadType], py_get (json request) ''type'') (\<lambda>interaction_type.
       if py_eq_int interaction_type PING then lift (Inr PongResponse)
       else if py_eq_int interaction_type APPLICATION_COMMAND
         then run_command x self (json request)
       else if py_eq_int interaction_type MESSAGE_COMPONENT
         then run_handler x self (json request) True
       else if py_eq_int interaction_type APPLICATION_COMMAND_AUTOCOMPLETE
         then run_autocomplete x self (json request)
       else if py_eq_int interaction_type MODAL_SUBMIT
         then run_handler x self (json request) False
       else lift (Inl (RuntimeWarning
              (''Interaction type '' @ py_format x interaction_type @ '' is not yet supported''))))"

definition handle_request :: "ext \<Rightarrow> discord \<Rightarrow> request \<Rightarrow> pyobj run" where
  "handle_request x self request =
     then_do (verify_signature x self request) (\<lambda>_. dispatch x self request)"

subsection \<open>\<open>__call__\<close>\<close>

definition read_request :: "ext \<Rightarrow> 'a environ_scheme \<Rightarrow> exn + request" where
  "read_request x env =
     (case wsgi_input env of
        Inl e \<Rightarrow> abort 400 ''Malformed or missing JSON body''
      | Inr raw \<Rightarrow>
          (case decode_utf8 x raw of
             Inl e \<Rightarrow> abort 400 ''Malformed or missing JSON body''
           | Inr s \<Rightarrow>
               (case json_loads x s of
                  Inl e \<Rightarrow> abort 400 ''Malformed or missing JSON body''
                | Inr j \<Rightarrow>
                    Inr \<lparr>wsgi_input = wsgi_input env,
                         HTTP_X_SIGNATURE_ED25519 = HTTP_X_SIGNATURE_ED25519 env,
                         HTTP_X_SIGNATURE_TIMESTAMP = HTTP_X_SIGNATURE_TIMESTAMP env,
                         json = j, raw_data = raw\<rparr>)))"

definition call_try :: "ext \<Rightarrow> discord \<Rightarrow> 'a environ_scheme \<Rightarrow> response run" where
  "call_try x self env =
     then_do (lift (read_request x env)) (\<lambda>data.
     then_do (handle_request x self data) (\<lambda>result.
     then_do (lift (encode x result)) (\<lambda>(response, mimetype).
       lift (Inr \<lparr>status = ''200 OK'',
                  response_headers = [(''Content-Type'', mimetype)],
                  body = [response]\<rparr>))))"

text \<open>The \<open>except AbortError\<close> branch: what is handed to \<open>start_response\<close> and returned.\<close>

definition error_response :: "ext \<Rightarrow> pystr \<Rightarrow> response" where
  "error_response x http_code =
     \<lparr>status = http_code,
      response_headers = [(''Content-Type'', ''application/json'')],
      body = [json_dumps x (JObj [(''error'', JStr http_code)])]\<rparr>"

text \<open>
  The only \<open>except\<close> clause of the outer \<open>try\<close>: an \<open>AbortError\<close> becomes a response, any
  other exception leaves \<open>__call__\<close>.
\<close>

definition except_AbortError :: "ext \<Rightarrow> exn \<Rightarrow> exn + response" where
  "except_AbortError x err =
     (case err of
        AbortError http_code \<Rightarrow> Inr (error_response x http_code)
      | _ \<Rightarrow> Inl err)"

definition call :: "ext \<Rightarrow> discord \<Rightarrow> 'a environ_scheme \<Rightarrow> response run" where
  "call x self env =
     (case call_try x self env of
        (t, Inl err) \<Rightarrow> (t, except_AbortError x err)
      | (t, Inr r) \<Rightarrow> (t, Inr r))"

subsection \<open>\<open>fetch_token\<close> and \<open>auth_headers\<close>\<close>

text \<open>
  \<open>now\<close> is the value \<open>time.time()\<close> returns inside the function. \<open>http\<close> is the outcome of
  the POST to \<open>/oauth2/token\<close> followed by \<open>raise_for_status()\<close> and \<open>response.json()\<close>:
  an exception, or the token object (whose \<open>expires_on\<close> entry is then overwritten).
\<close>

definition fetch_token :: "discord \<Rightarrow> rat \<Rightarrow> exn + token \<Rightarrow> exn + token" where
  "fetch_token self now http =
     (if DONT_REGISTER_WITH_DISCORD self then
        (let tok = \<lparr>token_type = ''Bearer'', scope = discord_scope self,
                     expires_in = 604800,
                     access_token = ''DONT_REGISTER_WITH_DISCORD'',
                     expires_on = 0\<rparr>
         in Inr (tok\<lparr>expires_on := now + expires_in tok / 2\<rparr>))
      else
        (case http of
           Inl e \<Rightarrow> Inl e
         | Inr tok \<Rightarrow> Inr (tok\<lparr>expires_on := now + expires_in tok / 2\<rparr>)))"

definition bearer :: "token \<Rightarrow> (pystr \<times> pystr) list" where
  "bearer t = [(''Authorization'', ''Bearer '' @ access_token t)]"

text \<open>
  \<open>now\<close> is the clock reading of \<open>auth_headers\<close> itself, \<open>now'\<close> the later one of
  \<open>fetch_token\<close>. The result is the log, the returned header or the exception, and the
  object with its \<open>discord_token\<close> slot as the call leaves it.
\<close>

definition auth_headers ::
  "discord \<Rightarrow> rat \<Rightarrow> rat \<Rightarrow> exn + token \<Rightarrow> event list \<times> (exn + (pystr \<times> pystr) list) \<times> discord" where
  "auth_headers self now now' http =
     (let refresh =
            (case fetch_token self now' http of
               Inl e \<Rightarrow> ([FetchToken], Inl e, self)
             | Inr t \<Rightarrow> ([FetchToken], Inr (bearer t), self\<lparr>discord_token := Some t\<rparr>))
      in case discord_token self of
           None \<Rightarrow> refresh
         | Some t \<Rightarrow> if now > expires_on t then refresh else ([], Inr (bearer t), self))"

section \<open>Classes of steps\<close>

fun is_check :: "event \<Rightarrow> bool" where
  "is_check (Verify m) = True"
| "is_check (Warn w) = True"
| "is_check _ = False"

fun is_lookup :: "event \<Rightarrow> bool" where
  "is_lookup (LookupCommand n) = True"
| "is_lookup (LookupHandler c) = True"
| "is_lookup _ = False"

fun is_run :: "event \<Rightarrow> bool" where
  "is_run (RunCommand n) = True"
| "is_run (RunHandler c) = True"
| "is_run (RunAutocomplete n) = True"
| "is_run _ = False"

section \<open>A sample deployment\<close>

text \<open>
  Concrete stand-ins for the library calls, used to run the module on example requests
  with ASCII bodies. \<open>sample_loads\<close>, \<open>sample_dumps\<close> and \<open>sample_dumps_compact\<close> agree with
  \<open>json.loads\<close>, \<open>json.dumps\<close> and \<open>json.dumps(separators=(',', ':'))\<close> on the entries
  listed and are not meant for any other argument. \<open>signed_for m\<close> is the behaviour of the
  Ed25519 check when the signature header of the request is a valid signature of exactly
  the message \<open>m\<close> under the configured key; \<open>signed_for []\<close> is its behaviour when the
  header is a valid signature of no message that is checked.
\<close>

definition ping_spaced :: bytes where \<open>ping_spaced = ''{"type": 1}''\<close>
definition ping_compact :: bytes where \<open>ping_compact = ''{"type":1}''\<close>
definition greet_body :: bytes where \<open>greet_body = ''{"type":2,"data":{"name":"greet"}}''\<close>
definition unknown_body :: bytes where \<open>unknown_body = ''{"type":2,"data":{"name":"unknown"}}''\<close>
definition boom_body :: bytes where \<open>boom_body = ''{"type":2,"data":{"name":"boom"}}''\<close>
definition click_body :: bytes where \<open>click_body = ''{"type":3,"data":{"custom_id":"form"}}''\<close>
definition submit_body :: bytes where \<open>submit_body = ''{"type":5,"data":{"custom_id":"form"}}''\<close>

definition command_json :: "int \<Rightarrow> pystr \<Rightarrow> json" where
  "command_json t n = JObj [(''type'', JInt t), (''data'', JObj [(''name'', JStr n)])]"

definition component_json :: "int \<Rightarrow> pystr \<Rightarrow> json" where
  "component_json t c = JObj [(''type'', JInt t), (''data'', JObj [(''custom_id'', JStr c)])]"

definition sample_loads :: "pystr \<Rightarrow> exn + json" where
  "sample_loads s =
     (case map_of
        [(ping_spaced, JObj [(''type'', JInt 1)]),
         (ping_compact, JObj [(''type'', JInt 1)]),
         (greet_body, command_json 2 ''greet''),
         (unknown_body, command_json 2 ''unknown''),
         (boom_body, command_json 2 ''boom''),
         (click_body, component_json 3 ''form''),
         (submit_body, component_json 5 ''form'')] s of
        None \<Rightarrow> Inl (OtherError ''JSONDecodeError'' s)
      | Some j \<Rightarrow> Inr j)"

definition sample_dumps_compact :: "json \<Rightarrow> pystr" where
  "sample_dumps_compact j = (if j = JObj [(''type'', JInt 1)] then ping_compact else [])"

definition sample_dumps :: "json \<Rightarrow> pystr" where
  \<open>sample_dumps j =
     (if j = JObj [(''type'', JInt 1)] then ''{"type": 1}''
      else if j = JObj [(''error'', JStr ''401 Incorrect Signature'')]
        then ''{"error": "401 Incorrect Signature"}''
      else if j = JObj [(''error'', JStr ''401 Missing signature or timestamp'')]
        then ''{"error": "401 Missing signature or timestamp"}''
      else if j = JObj [(''error'', JStr ''400 Malformed or missing JSON body'')]
        then ''{"error": "400 Malformed or missing JSON body"}''
      else if j = JStr ''hello'' then ''"hello"''
      else [])\<close>

definition signed_for :: "bytes \<Rightarrow> pystr \<Rightarrow> bytes \<Rightarrow> pystr \<Rightarrow> vres" where
  "signed_for m public_key message signature =
     (if message = m then Verified else BadSignatureError)"

definition sample_from_data :: "json \<Rightarrow> exn + Context" where
  "sample_from_data data =
     (case py_item data ''data'' of
        Inl e \<Rightarrow> Inl e
      | Inr d \<Rightarrow>
          (case py_item d ''custom_id'' of
             Inr (JStr c) \<Rightarrow> Inr \<lparr>primary_id = c, ctx_data = data\<rparr>
           | Inr _ \<Rightarrow> Inl (AttributeError ''split'')
           | Inl e \<Rightarrow> Inl e))"

definition sample_from_return_value :: "pyobj \<Rightarrow> exn + pyobj" where
  "sample_from_return_value r = (case r of Value j \<Rightarrow> Inr (Message j) | _ \<Rightarrow> Inr r)"

definition sample_encode_obj :: "pyobj \<Rightarrow> exn + (pystr \<times> pystr)" where
  "sample_encode_obj obj =
     (case obj of
        Message j \<Rightarrow> Inr (sample_dumps j, ''application/json'')
      | Modal j \<Rightarrow> Inr (sample_dumps j, ''application/json'')
      | AutocompleteResult j \<Rightarrow> Inr (sample_dumps j, ''application/json'')
      | _ \<Rightarrow> Inl (AttributeError ''encode''))"

definition sample_ext :: "bytes \<Rightarrow> ext" where
  "sample_ext signed =
     \<lparr>decode_utf8 = Inr,
      json_loads = sample_loads,
      json_dumps = sample_dumps,
      json_dumps_compact = sample_dumps_compact,
      str_of = (\<lambda>j. if j = JNull then ''None'' else []),
      VerifyKey = (\<lambda>k. None),
      verify = signed_for signed,
      PONG = 1,
      from_data = sample_from_data,
      create_handler_args = (\<lambda>c h. Inr []),
      from_return_value = sample_from_return_value,
      encode_obj = sample_encode_obj\<rparr>"

definition greet :: command where
  "greet = \<lparr>cmd_description = ''Say hello'',
            make_context_and_run = (\<lambda>data. Inr (Message (JStr ''hello''))),
            make_context_and_run_autocomplete = (\<lambda>data. Inr (AutocompleteResult (JArr [])))\<rparr>"

definition boom :: command where
  "boom = \<lparr>cmd_description = ''Always fails'',
           make_context_and_run = (\<lambda>data. Inl (ValueError ''boom'')),
           make_context_and_run_autocomplete = (\<lambda>data. Inl (ValueError ''boom''))\<rparr>"

definition form_handler :: handler where
  "form_handler c args = Inr (Modal (JStr ''hello''))"

definition sample_discord :: discord where
  "sample_discord =
     \<lparr>discord_commands = [''greet'' \<mapsto> greet, ''boom'' \<mapsto> boom],
      custom_id_handlers = [''form'' \<mapsto> form_handler],
      discord_token = None,
      discord_public_key = ''e3b0c44298fc1c149afbf4c8996fb92427ae41e4649b934ca495991b7852b855'',
      discord_scope = ''applications.commands.update'',
      DONT_REGISTER_WITH_DISCORD = False,
      DONT_VALIDATE_SIGNATURE = False\<rparr>"

definition ping_v1 :: command where
  "ping_v1 = \<lparr>cmd_description = ''Check latency'',
              make_context_and_run = (\<lambda>data. Inr (Message (JStr ''pong''))),
              make_context_and_run_autocomplete = (\<lambda>data. Inr (AutocompleteResult (JArr [])))\<rparr>"

definition ping_v2 :: command where
  "ping_v2 = ping_v1\<lparr>cmd_description := ''Check that the bot is alive''\<rparr>"

definition other_discord :: "command \<Rightarrow> discord" where
  "other_discord c =
     sample_discord\<lparr>discord_commands := [''ping'' \<mapsto> c],
                    custom_id_handlers := Map.empty\<rparr>"

definition sample_token :: token where
  "sample_token =
     \<lparr>token_type = ''Bearer'', scope = ''applications.commands.update'', expires_in = 10,
      access_token = ''abc'', expires_on = 0\<rparr>"

definition cached_discord :: discord where
  "cached_discord = sample_discord\<lparr>discord_token := Some (sample_token\<lparr>expires_on := 105\<rparr>)\<rparr>"

definition sample_environ :: "bytes \<Rightarrow> pystr option \<Rightarrow> pystr option \<Rightarrow> environ" where
  "sample_environ raw sg ts =
     \<lparr>wsgi_input = Inr raw, HTTP_X_SIGNATURE_ED25519 = sg, HTTP_X_SIGNATURE_TIMESTAMP = ts\<rparr>"

definition sample_signature :: pystr where
  "sample_signature = concat (replicate 64 ''ab'')"

definition sample_request :: "bytes \<Rightarrow> json \<Rightarrow> request" where
  "sample_request raw j =
     \<lparr>wsgi_input = Inr raw,
      HTTP_X_SIGNATURE_ED25519 = Some sample_signature,
      HTTP_X_SIGNATURE_TIMESTAMP = Some ''1700000000'',
      json = j, raw_data = raw\<rparr>"

section \<open>Basic facts\<close>

lemma dec_401: "dec 401 = ''401''"
  by code_simp

lemma dec_400: "dec 400 = ''400''"
  by code_simp

lemma then_do_Inl: "then_do (t, Inl e) f = (t, Inl e)"
  by (simp add: then_do_def)

lemma then_do_Inr: "then_do (t, Inr v) f = (t @ fst (f v), snd (f v))"
  by (simp add: then_do_def split: prod.splits)

lemma fst_then_do:
  "fst (then_do m f) = fst m @ (case snd m of Inl e \<Rightarrow> [] | Inr v \<Rightarrow> fst (f v))"
  by (cases m) (simp add: then_do_def split: sum.splits prod.splits)

lemma snd_then_do:
  "snd (then_do m f) = (case snd m of Inl e \<Rightarrow> Inl e | Inr v \<Rightarrow> snd (f v))"
  by (cases m) (simp add: then_do_def split: sum.splits prod.splits)

section \<open>Signature verification\<close>

lemma repr_ping_compact: \<open>bytes_repr ''{"type":1}'' = ''b'{"type":1}'' @ [CHR 0x27]\<close>
  by (simp add: bytes_repr_def repr_byte_def Let_def)

lemma length_concat_repr: "length b \<le> length (concat (map (repr_byte q) b))"
  by (induction b) (simp_all add: repr_byte_def)

lemma bytes_repr_longer: "length b < length (bytes_repr b)"
proof -
  have "length b \<le> length (concat (map (repr_byte q) b))" for q
    by (rule length_concat_repr)
  then show ?thesis
    unfolding bytes_repr_def Let_def by (simp add: less_Suc_eq_le le_SucI)
qed

lemma bytes_repr_neq: "bytes_repr b \<noteq> b"
  using bytes_repr_longer [of b] by auto

text \<open>
  The retry is never made on the re-serialized content itself: its message is the
  timestamp followed by the \<open>repr\<close> of the bytes. So when the signature is valid for the
  timestamp followed by the re-serialized content, and for nothing else, a body that is
  not already in that form is rejected.
\<close>

lemma retry_message:
  assumes "decode_utf8 x raw = Inr s" and "json_loads x s = Inr j"
  shows "canonical_message x ts raw = Inr (ts @ bytes_repr (json_dumps_compact x j))"
    and "ts @ bytes_repr (json_dumps_compact x j) \<noteq> ts @ json_dumps_compact x j"
  using assms bytes_repr_neq by (simp_all add: canonical_message_def)

lemma retry_never_accepts_signed_content:
  assumes "\<not> DONT_VALIDATE_SIGNATURE self"
    and "HTTP_X_SIGNATURE_ED25519 request = Some sg"
    and "HTTP_X_SIGNATURE_TIMESTAMP request = Some ts"
    and "decode_utf8 x (raw_data request) = Inr s"
    and "json_loads x s = Inr j"
    and "VerifyKey x (discord_public_key self) = None"
    and "\<And>m. verify x (discord_public_key self) m sg
            = (if m = ts @ json_dumps_compact x j then Verified else BadSignatureError)"
    and "s \<noteq> json_dumps_compact x j"
  shows "snd (verify_signature x self request) = Inl (AbortError ''401 Incorrect Signature'')"
  using assms retry_message [OF assms(4,5), of ts]
  by (simp add: verify_signature_def verify_fallback_def then_do_def abort_def dec_401)

text \<open>
  C1. The body \<open>{"type": 1}\<close> differs from the signed content \<open>{"type":1}\<close> only in JSON
  whitespace; the signature header is valid for the timestamp followed by the signed
  content. The check on the raw bytes fails, and the retry is made on the timestamp
  followed by the \<open>repr\<close> of the re-serialized bytes (\<open>b'{"type":1}'\<close>), not on the
  re-serialized bytes themselves. That check fails as well: the request is aborted with
  401 and no warning is emitted.
\<close>

theorem fallback_rejects_whitespace_variant:
  \<open>verify_signature (sample_ext (''1700000000'' @ ping_compact)) sample_discord
     (sample_request ping_spaced (JObj [(''type'', JInt 1)]))
   = ([Verify ''1700000000{"type": 1}'', Verify (''1700000000b'{"type":1}'' @ [CHR 0x27])],
      Inl (AbortError ''401 Incorrect Signature''))\<close>
  by (simp add: verify_signature_def verify_fallback_def canonical_message_def sample_ext_def
      sample_discord_def sample_request_def signed_for_def sample_loads_def
      sample_dumps_compact_def then_do_def abort_def dec_401 repr_ping_compact
      ping_spaced_def ping_compact_def)

section \<open>Order of verification, classification and dispatch\<close>

lemma verify_fallback_checks: "list_all is_check (fst (verify_fallback x self sg ts raw))"
  by (simp add: verify_fallback_def split: sum.splits vres.splits)

lemma verify_signature_checks: "list_all is_check (fst (verify_signature x self request))"
  using verify_fallback_checks
  by (simp add: verify_signature_def Let_def fst_then_do split: option.splits sum.splits vres.splits)

lemma run_command_steps:
  "list_all (\<lambda>e. is_lookup e \<or> is_run e) (fst (run_command x self data))"
  by (simp add: run_command_def fst_then_do lift_def split: sum.splits option.splits)

lemma run_autocomplete_steps:
  "list_all (\<lambda>e. is_lookup e \<or> is_run e) (fst (run_autocomplete x self data))"
  by (simp add: run_autocomplete_def fst_then_do lift_def split: sum.splits option.splits)

lemma run_handler_steps:
  "list_all (\<lambda>e. is_lookup e \<or> is_run e) (fst (run_handler x self data allow_modal))"
  by (simp add: run_handler_def fst_then_do lift_def split: sum.splits option.splits pyobj.splits)

lemma dispatch_steps:
  "\<exists>tu. fst (dispatch x self request) = ReadType # tu \<and> list_all (\<lambda>e. is_lookup e \<or> is_run e) tu"
  using run_command_steps run_autocomplete_steps run_handler_steps
  by (simp add: dispatch_def fst_then_do lift_def split: sum.splits)

lemma checks_are_not_steps:
  "list_all is_check t \<Longrightarrow> filter (\<lambda>e. e = ReadType \<or> is_lookup e \<or> is_run e) t = []"
proof (induction t)
  case Nil
  then show ?case by simp
next
  case (Cons e t)
  then show ?case by (cases e) simp_all
qed

lemma handle_request_log_shape:
  "list_all is_check (fst (verify_signature x self request)) \<and>
   (case snd (verify_signature x self request) of
      Inl e \<Rightarrow>
        handle_request x self request = (fst (verify_signature x self request), Inl e) \<and>
        filter (\<lambda>e. e = ReadType \<or> is_lookup e \<or> is_run e) (fst (handle_request x self request)) = []
    | Inr u \<Rightarrow>
        (\<exists>tu. fst (handle_request x self request)
                 = fst (verify_signature x self request) @ ReadType # tu \<and>
              list_all (\<lambda>e. is_lookup e \<or> is_run e) tu))"
proof (cases "verify_signature x self request")
  case (Pair tv r)
  have tv: "list_all is_check tv"
    using verify_signature_checks [of x self request] Pair by simp
  show ?thesis
  proof (cases r)
    case (Inl e)
    with Pair tv show ?thesis
      by (simp add: handle_request_def then_do_Inl checks_are_not_steps)
  next
    case (Inr u)
    obtain tu where "fst (dispatch x self request) = ReadType # tu"
      and "list_all (\<lambda>e. is_lookup e \<or> is_run e) tu"
      using dispatch_steps by blast
    with Pair Inr tv show ?thesis
      by (simp add: handle_request_def then_do_Inr)
  qed
qed

lemmas sample_defs = sample_ext_def sample_discord_def sample_request_def sample_environ_def
  signed_for_def sample_loads_def sample_dumps_def sample_dumps_compact_def
  ping_spaced_def ping_compact_def greet_body_def unknown_body_def boom_body_def
  click_body_def submit_body_def command_json_def component_json_def
  sample_from_data_def sample_from_return_value_def sample_encode_obj_def
  greet_def boom_def form_handler_def sample_signature_def

lemmas module_defs = verify_signature_def verify_fallback_def canonical_message_def
  handle_request_def dispatch_def run_command_def run_handler_def run_autocomplete_def
  command_name_of_def py_item_def py_get_def py_eq_int_def dict_find_def py_format_def
  then_do_def lift_def abort_def dec_401 dec_400 Let_def
  PING_def APPLICATION_COMMAND_def MESSAGE_COMPONENT_def
  APPLICATION_COMMAND_AUTOCOMPLETE_def MODAL_SUBMIT_def

lemma verify_fallback_passed:
  assumes "snd (verify_fallback x self sg ts raw) = Inr u"
  shows "\<exists>m. canonical_message x ts raw = Inr m \<and>
             verify x (discord_public_key self) m sg = Verified \<and>
             Verify m \<in> set (fst (verify_fallback x self sg ts raw))"
  using assms
  by (auto simp: verify_fallback_def abort_def split: sum.splits vres.splits)

lemma verify_signature_passed:
  assumes "\<not> DONT_VALIDATE_SIGNATURE self"
    and "snd (verify_signature x self request) = Inr u"
  shows "\<exists>sg ts s m.
           HTTP_X_SIGNATURE_ED25519 request = Some sg \<and>
           HTTP_X_SIGNATURE_TIMESTAMP request = Some ts \<and>
           decode_utf8 x (raw_data request) = Inr s \<and>
           (m = ts @ s \<or> canonical_message x ts (raw_data request) = Inr m) \<and>
           verify x (discord_public_key self) m sg = Verified \<and>
           Verify m \<in> set (fst (verify_signature x self request))"
proof -
  obtain sg ts where h: "HTTP_X_SIGNATURE_ED25519 request = Some sg"
    "HTTP_X_SIGNATURE_TIMESTAMP request = Some ts"
    using assms by (auto simp: verify_signature_def abort_def split: option.splits)
  obtain s where s: "decode_utf8 x (raw_data request) = Inr s"
    using assms h by (auto simp: verify_signature_def split: sum.splits)
  have k: "VerifyKey x (discord_public_key self) = None"
    using assms h s by (auto simp: verify_signature_def Let_def split: option.splits)
  show ?thesis
  proof (cases "verify x (discord_public_key self) (ts @ s) sg")
    case Verified
    with assms h s k show ?thesis
      by (auto simp: verify_signature_def Let_def)
  next
    case BadSignatureError
    with assms h s k
    have v: "verify_signature x self request
               = (Verify (ts @ s) # fst (verify_fallback x self sg ts (raw_data request)),
                  snd (verify_fallback x self sg ts (raw_data request)))"
      by (simp add: verify_signature_def Let_def then_do_Inr)
    with assms(2) have "snd (verify_fallback x self sg ts (raw_data request)) = Inr u"
      by simp
    from verify_fallback_passed [OF this] v h s show ?thesis
      by auto
  next
    case (Raises e)
    with assms h s k show ?thesis
      by (auto simp: verify_signature_def Let_def)
  qed
qed

text \<open>
  C3, as stated, fails when \<open>DONT_VALIDATE_SIGNATURE\<close> is set: \<open>verify_signature\<close> returns
  before any check. The request below carries neither a signature nor a timestamp; no
  Ed25519 check is made, the interaction type is read and the handler of the registered
  command \<open>greet\<close> is called.
\<close>

theorem unchecked_request_reaches_handler:
  "verify_signature (sample_ext []) (sample_discord\<lparr>DONT_VALIDATE_SIGNATURE := True\<rparr>)
     ((sample_request greet_body (command_json 2 ''greet''))
        \<lparr>HTTP_X_SIGNATURE_ED25519 := None, HTTP_X_SIGNATURE_TIMESTAMP := None\<rparr>)
     = ([], Inr ())
   \<and> handle_request (sample_ext []) (sample_discord\<lparr>DONT_VALIDATE_SIGNATURE := True\<rparr>)
     ((sample_request greet_body (command_json 2 ''greet''))
        \<lparr>HTTP_X_SIGNATURE_ED25519 := None, HTTP_X_SIGNATURE_TIMESTAMP := None\<rparr>)
     = ([ReadType, LookupCommand (JStr ''greet''), RunCommand (JStr ''greet'')],
        Inr (Message (JStr ''hello'')))"
  by (simp add: sample_defs module_defs)

text \<open>
  C3, amended. With \<open>DONT_VALIDATE_SIGNATURE\<close> unset, the log of \<open>handle_request\<close> starts
  with the log of \<open>verify_signature\<close>, which holds signature checks and the warning only.
  When verification raises, \<open>handle_request\<close> raises the same exception and its log ends
  there: the interaction type is not read, no registry is consulted and no command or
  custom-id handler is called. When verification returns, both headers are present and
  an Ed25519 check of the signature header has passed, on the timestamp followed by the
  decoded body or on the message of the retry; that check is in the log, the read of
  the interaction type comes after it, and every registry lookup and every call of user
  code comes after that read.
\<close>

theorem passed_check_precedes_dispatch:
  assumes "\<not> DONT_VALIDATE_SIGNATURE self"
  shows "list_all is_check (fst (verify_signature x self request)) \<and>
   (case snd (verify_signature x self request) of
      Inl e \<Rightarrow>
        handle_request x self request = (fst (verify_signature x self request), Inl e) \<and>
        filter (\<lambda>e. e = ReadType \<or> is_lookup e \<or> is_run e) (fst (handle_request x self request)) = []
    | Inr u \<Rightarrow>
        (\<exists>sg ts s m.
           HTTP_X_SIGNATURE_ED25519 request = Some sg \<and>
           HTTP_X_SIGNATURE_TIMESTAMP request = Some ts \<and>
           decode_utf8 x (raw_data request) = Inr s \<and>
           (m = ts @ s \<or> canonical_message x ts (raw_data request) = Inr m) \<and>
           verify x (discord_public_key self) m sg = Verified \<and>
           Verify m \<in> set (fst (verify_signature x self request))) \<and>
        (\<exists>tu. fst (handle_request x self request)
                 = fst (verify_signature x self request) @ ReadType # tu \<and>
              list_all (\<lambda>e. is_lookup e \<or> is_run e) tu))"
proof (cases "snd (verify_signature x self request)")
  case (Inl e)
  with handle_request_log_shape [of x self request] show ?thesis
    by (auto simp: checks_are_not_steps)
next
  case (Inr u)
  with handle_request_log_shape [of x self request]
    verify_signature_passed [OF assms Inr]
  show ?thesis
    by simp
qed

theorem passed_check_precedes_dispatch_witness:
  \<open>verify (sample_ext (''1700000000'' @ greet_body)) (discord_public_key sample_discord)
     (''1700000000'' @ greet_body) sample_signature = Verified
   \<and> handle_request (sample_ext (''1700000000'' @ greet_body)) sample_discord
     (sample_request greet_body (command_json 2 ''greet''))
   = ([Verify (''1700000000'' @ greet_body), ReadType,
       LookupCommand (JStr ''greet''), RunCommand (JStr ''greet'')],
      Inr (Message (JStr ''hello'')))
   \<and> handle_request (sample_ext (''1700000000'' @ greet_body)) sample_discord
     ((sample_request greet_body (command_json 2 ''greet''))\<lparr>HTTP_X_SIGNATURE_ED25519 := None\<rparr>)
   = ([], Inl (AbortError ''401 Missing signature or timestamp''))\<close>
proof -
  have d: "\<not> DONT_VALIDATE_SIGNATURE sample_discord"
    by (simp add: sample_discord_def)
  show ?thesis
    using passed_check_precedes_dispatch
        [OF d, of "sample_ext (''1700000000'' @ greet_body)"
            "sample_request greet_body (command_json 2 ''greet'')"]
    by (simp add: sample_defs module_defs)
qed

section \<open>Ping\<close>

lemma verify_signature_registries:
  "verify_signature x (self\<lparr>discord_commands := cs, custom_id_handlers := hs\<rparr>) request
   = verify_signature x self request"
  by (simp add: verify_signature_def verify_fallback_def Let_def
      split: option.splits sum.splits vres.splits)

lemma dispatch_ping:
  assumes "py_get (json request) ''type'' = Inr ty" and "py_eq_int ty PING"
  shows "dispatch x self request = ([ReadType], Inr PongResponse)"
  using assms by (simp add: dispatch_def then_do_def lift_def)

text \<open>
  C8. A request that passed verification and whose \<open>type\<close> entry compares equal to 1 is
  answered with \<open>PongResponse\<close>, whatever the two registries hold: after the signature
  checks the log has the read of the type and nothing else (no lookup, no handler call),
  and \<open>__call__\<close> returns status 200 with mimetype \<open>application/json\<close> and the body
  \<open>json.dumps({"type": ResponseType.PONG})\<close>.
\<close>

theorem ping_always_pong:
  assumes "read_request x env = Inr request"
    and "snd (verify_signature x self request) = Inr ()"
    and "py_get (json request) ''type'' = Inr ty"
    and "py_eq_int ty PING"
  shows "handle_request x (self\<lparr>discord_commands := cs, custom_id_handlers := hs\<rparr>) request
           = (fst (verify_signature x self request) @ [ReadType], Inr PongResponse)
       \<and> call x (self\<lparr>discord_commands := cs, custom_id_handlers := hs\<rparr>) env
           = (fst (verify_signature x self request) @ [ReadType],
              Inr \<lparr>status = ''200 OK'',
                   response_headers = [(''Content-Type'', ''application/json'')],
                   body = [json_dumps x (JObj [(''type'', JInt (PONG x))])]\<rparr>)"
proof -
  let ?self = "self\<lparr>discord_commands := cs, custom_id_handlers := hs\<rparr>"
  obtain tv where tv: "verify_signature x self request = (tv, Inr ())"
    using assms(2) by (cases "verify_signature x self request") simp
  have h: "handle_request x ?self request = (tv @ [ReadType], Inr PongResponse)"
    using tv dispatch_ping [OF assms(3,4)]
    by (simp add: handle_request_def verify_signature_registries then_do_Inr)
  have "call x ?self env
          = (tv @ [ReadType],
             Inr \<lparr>status = ''200 OK'',
                  response_headers = [(''Content-Type'', ''application/json'')],
                  body = [json_dumps x (JObj [(''type'', JInt (PONG x))])]\<rparr>)"
    using assms(1) h by (simp add: call_def call_try_def then_do_def lift_def encode_def)
  with h tv show ?thesis by simp
qed

theorem ping_always_pong_witness:
  \<open>call (sample_ext (''1700000000'' @ ping_compact))
      (sample_discord\<lparr>discord_commands := Map.empty, custom_id_handlers := Map.empty\<rparr>)
      (sample_environ ping_compact (Some sample_signature) (Some ''1700000000''))
    = ([Verify ''1700000000{"type":1}'', ReadType],
       Inr \<lparr>status = ''200 OK'',
            response_headers = [(''Content-Type'', ''application/json'')],
            body = [''{"type": 1}'']\<rparr>)\<close>
proof -
  let ?x = "sample_ext (''1700000000'' @ ping_compact)"
  let ?env = "sample_environ ping_compact (Some sample_signature) (Some ''1700000000'')"
  let ?req = "sample_request ping_compact (JObj [(''type'', JInt 1)])"
  have 1: "read_request ?x ?env = Inr ?req"
    by (simp add: read_request_def sample_defs)
  have 2: "snd (verify_signature ?x sample_discord ?req) = Inr ()"
    by (simp add: sample_defs module_defs)
  have 3: "py_get (json ?req) ''type'' = Inr (JInt 1)"
    by (simp add: sample_defs module_defs)
  have 4: "py_eq_int (JInt 1) PING"
    by (simp add: module_defs)
  show ?thesis
    using ping_always_pong [OF 1 2 3 4, of Map.empty Map.empty]
    by (simp add: sample_defs module_defs)
qed

section \<open>Unregistered command names\<close>

text \<open>
  C10. For a command name that is hashable and is not a key of \<open>discord_commands\<close>,
  \<open>run_command\<close> finds \<open>None\<close> with \<open>dict.get\<close> and raises \<open>ValueError\<close> with the message
  \<open>Invalid command name: \<close> followed by the name, while \<open>run_autocomplete\<close> indexes the
  dictionary and raises \<open>KeyError\<close> with the name: two different exceptions.
\<close>

theorem unregistered_name_errors_differ:
  assumes "command_name_of data = Inr name"
    and "dict_find (discord_commands self) name = Inr None"
  shows "run_command x self data
           = ([LookupCommand name], Inl (ValueError (''Invalid command name: '' @ py_format x name)))
       \<and> run_autocomplete x self data = ([LookupCommand name], Inl (KeyError name))
       \<and> snd (run_command x self data) \<noteq> snd (run_autocomplete x self data)"
  using assms by (simp add: run_command_def run_autocomplete_def then_do_def lift_def)

theorem unregistered_name_errors_differ_witness:
  "run_command (sample_ext []) sample_discord (command_json 2 ''unknown'')
     = ([LookupCommand (JStr ''unknown'')], Inl (ValueError ''Invalid command name: unknown''))
   \<and> run_autocomplete (sample_ext []) sample_discord (command_json 4 ''unknown'')
     = ([LookupCommand (JStr ''unknown'')], Inl (KeyError (JStr ''unknown'')))"
proof -
  have 1: "command_name_of (command_json t ''unknown'') = Inr (JStr ''unknown'')" for t
    by (simp add: sample_defs module_defs)
  have 2: "dict_find (discord_commands sample_discord) (JStr ''unknown'') = Inr None"
    by (simp add: sample_defs module_defs)
  show ?thesis
    using unregistered_name_errors_differ [OF 1 [of 2] 2, of "sample_ext []"]
      unregistered_name_errors_differ [OF 1 [of 4] 2, of "sample_ext []"]
    by (simp add: py_format_def)
qed

section \<open>Merging a blueprint\<close>

text \<open>
  C9. \<open>register_blueprint\<close> always returns (it has no error case). In the result every
  command name and every custom id of the blueprint maps to the blueprint's entry, and
  every other key keeps the receiver's entry. When neither registry of \<open>a\<close> shares a key
  with the corresponding registry of \<open>b\<close>, merging \<open>b\<close> into \<open>a\<close> and merging \<open>a\<close> into \<open>b\<close>
  give the same two mappings.
\<close>

theorem register_blueprint_union:
  fixes self a b :: discord and blueprint :: "'a blueprint_scheme"
  shows "discord_commands (register_blueprint self blueprint) n
           = (case discord_commands blueprint n of
                Some c \<Rightarrow> Some c
              | None \<Rightarrow> discord_commands self n)
       \<and> custom_id_handlers (register_blueprint self blueprint) k
           = (case custom_id_handlers blueprint k of
                Some h \<Rightarrow> Some h
              | None \<Rightarrow> custom_id_handlers self k)
       \<and> (dom (discord_commands a) \<inter> dom (discord_commands b) = {} \<and>
          dom (custom_id_handlers a) \<inter> dom (custom_id_handlers b) = {} \<longrightarrow>
            discord_commands (register_blueprint a b) = discord_commands (register_blueprint b a) \<and>
            custom_id_handlers (register_blueprint a b) = custom_id_handlers (register_blueprint b a))"
proof -
  have "discord_commands (register_blueprint a b) = discord_commands (register_blueprint b a)"
    if "dom (discord_commands a) \<inter> dom (discord_commands b) = {}"
    using map_add_comm [OF that] by (simp add: register_blueprint_def)
  moreover
  have "custom_id_handlers (register_blueprint a b) = custom_id_handlers (register_blueprint b a)"
    if "dom (custom_id_handlers a) \<inter> dom (custom_id_handlers b) = {}"
    using map_add_comm [OF that] by (simp add: register_blueprint_def)
  ultimately show ?thesis
    by (simp add: register_blueprint_def map_add_def)
qed

theorem register_blueprint_union_witness:
  "discord_commands (register_blueprint (other_discord ping_v1) (other_discord ping_v2)) ''ping''
     = Some ping_v2
   \<and> discord_commands (register_blueprint sample_discord (other_discord ping_v1))
     = discord_commands (register_blueprint (other_discord ping_v1) sample_discord)
   \<and> custom_id_handlers (register_blueprint sample_discord (other_discord ping_v1))
     = custom_id_handlers (register_blueprint (other_discord ping_v1) sample_discord)"
proof -
  have d: "dom (discord_commands sample_discord) \<inter> dom (discord_commands (other_discord ping_v1)) = {}
         \<and> dom (custom_id_handlers sample_discord) \<inter> dom (custom_id_handlers (other_discord ping_v1)) = {}"
    by (simp add: sample_discord_def other_discord_def)
  have c: "discord_commands (other_discord ping_v2) ''ping'' = Some ping_v2"
    by (simp add: other_discord_def)
  show ?thesis
    using register_blueprint_union
            [of "other_discord ping_v1" "other_discord ping_v2" "''ping''" "''form''"
                sample_discord "other_discord ping_v1"] d c
    by simp
qed

section \<open>Handlers that return a modal\<close>

lemma py_eq_int_unique: "py_eq_int v a \<Longrightarrow> py_eq_int v b \<Longrightarrow> a = b"
  by (cases v) (auto simp: py_eq_int_def split: if_splits)

lemma py_eq_int_other: "py_eq_int v a \<Longrightarrow> b \<noteq> a \<Longrightarrow> \<not> py_eq_int v b"
  using py_eq_int_unique by blast

lemma run_handler_result:
  assumes "from_data x data = Inr c"
    and "custom_id_handlers self (primary_id c) = Some h"
    and "create_handler_args x c h = Inr args"
    and "h c args = Inr r"
  shows "snd (run_handler x self data allow_modal) =
           (case r of
              Modal m \<Rightarrow>
                if allow_modal then Inr (Modal m)
                else Inl (ValueError ''Cannot return a Modal to that interaction type.'')
            | _ \<Rightarrow> from_return_value x r)"
  using assms by (simp add: run_handler_def then_do_def lift_def split: pyobj.splits prod.splits)

lemma dispatch_component:
  assumes "py_get (json request) ''type'' = Inr ty"
    and "py_eq_int ty MESSAGE_COMPONENT"
  shows "dispatch x self request
           = then_do ([ReadType], Inr ty) (\<lambda>t. run_handler x self (json request) True)"
proof -
  have "\<not> py_eq_int ty PING" "\<not> py_eq_int ty APPLICATION_COMMAND"
    using py_eq_int_other [OF assms(2)]
    by (simp_all add: PING_def APPLICATION_COMMAND_def MESSAGE_COMPONENT_def)
  with assms show ?thesis
    by (simp add: dispatch_def then_do_def)
qed

lemma dispatch_modal_submit:
  assumes "py_get (json request) ''type'' = Inr ty"
    and "py_eq_int ty MODAL_SUBMIT"
  shows "dispatch x self request
           = then_do ([ReadType], Inr ty) (\<lambda>t. run_handler x self (json request) False)"
proof -
  have "\<not> py_eq_int ty PING" "\<not> py_eq_int ty APPLICATION_COMMAND"
    "\<not> py_eq_int ty MESSAGE_COMPONENT" "\<not> py_eq_int ty APPLICATION_COMMAND_AUTOCOMPLETE"
    using py_eq_int_other [OF assms(2)]
    by (simp_all add: PING_def APPLICATION_COMMAND_def MESSAGE_COMPONENT_def
        APPLICATION_COMMAND_AUTOCOMPLETE_def MODAL_SUBMIT_def)
  with assms show ?thesis
    by (simp add: dispatch_def then_do_def)
qed

lemma dispatch_command:
  assumes "py_get (json request) ''type'' = Inr ty"
    and "py_eq_int ty APPLICATION_COMMAND"
  shows "dispatch x self request
           = then_do ([ReadType], Inr ty) (\<lambda>t. run_command x self (json request))"
proof -
  have "\<not> py_eq_int ty PING"
    using py_eq_int_other [OF assms(2)]
    by (simp_all add: PING_def APPLICATION_COMMAND_def)
  with assms show ?thesis
    by (simp add: dispatch_def then_do_def)
qed

lemma handle_request_verified:
  assumes "snd (verify_signature x self request) = Inr ()"
  shows "handle_request x self request
           = (fst (verify_signature x self request) @ fst (dispatch x self request),
              snd (dispatch x self request))"
  using assms
  by (cases "verify_signature x self request") (simp add: handle_request_def then_do_Inr)

text \<open>
  C7. Take a verified MessageComponent or ModalSubmit interaction whose custom-id handler
  is registered and returns \<open>r\<close>. When \<open>r\<close> is a \<open>Modal\<close>, \<open>handle_request\<close> raises
  \<open>ValueError("Cannot return a Modal to that interaction type.")\<close> for ModalSubmit and
  returns \<open>r\<close> itself for MessageComponent. When \<open>r\<close> is not a \<open>Modal\<close>, the result is
  \<open>Message.from_return_value(r)\<close> for both types.
\<close>

theorem modal_only_for_components:
  assumes "snd (verify_signature x self request) = Inr ()"
    and "py_get (json request) ''type'' = Inr ty"
    and "py_eq_int ty MESSAGE_COMPONENT \<or> py_eq_int ty MODAL_SUBMIT"
    and "from_data x (json request) = Inr c"
    and "custom_id_handlers self (primary_id c) = Some h"
    and "create_handler_args x c h = Inr args"
    and "h c args = Inr r"
  shows "snd (handle_request x self request) =
           (case r of
              Modal m \<Rightarrow>
                if py_eq_int ty MODAL_SUBMIT
                then Inl (ValueError ''Cannot return a Modal to that interaction type.'')
                else Inr (Modal m)
            | _ \<Rightarrow> from_return_value x r)"
proof -
  note rh = run_handler_result [OF assms(4-7)]
  from assms(3) show ?thesis
  proof
    assume t: "py_eq_int ty MESSAGE_COMPONENT"
    then have "\<not> py_eq_int ty MODAL_SUBMIT"
      using py_eq_int_other [OF t] by (simp add: MESSAGE_COMPONENT_def MODAL_SUBMIT_def)
    then show ?thesis
      using rh [of True] dispatch_component [OF assms(2) t, of x self]
        handle_request_verified [OF assms(1)]
      by (simp add: snd_then_do split: pyobj.splits)
  next
    assume t: "py_eq_int ty MODAL_SUBMIT"
    then show ?thesis
      using rh [of False] dispatch_modal_submit [OF assms(2) t, of x self]
        handle_request_verified [OF assms(1)]
      by (simp add: snd_then_do split: pyobj.splits)
  qed
qed

theorem modal_only_for_components_witness:
  "snd (handle_request (sample_ext (''1700000000'' @ click_body)) sample_discord
          (sample_request click_body (component_json 3 ''form'')))
     = Inr (Modal (JStr ''hello''))
   \<and> snd (handle_request (sample_ext (''1700000000'' @ submit_body)) sample_discord
          (sample_request submit_body (component_json 5 ''form'')))
     = Inl (ValueError ''Cannot return a Modal to that interaction type.'')"
proof -
  let ?c = "\<lambda>t. \<lparr>primary_id = ''form'', ctx_data = component_json t ''form''\<rparr>"
  have v: "snd (verify_signature (sample_ext (''1700000000'' @ b)) sample_discord
                  (sample_request b j)) = Inr ()" for b j
    by (simp add: sample_defs module_defs)
  have t: "py_get (json (sample_request b (component_json n ''form''))) ''type'' = Inr (JInt n)" for b n
    by (simp add: sample_defs module_defs)
  have f: "from_data (sample_ext s) (json (sample_request b (component_json n ''form''))) = Inr (?c n)" for s b n
    by (simp add: sample_defs module_defs)
  have h: "custom_id_handlers sample_discord (primary_id (?c n)) = Some form_handler" for n
    by (simp add: sample_discord_def)
  have a: "create_handler_args (sample_ext s) (?c n) form_handler = Inr []" for s n
    by (simp add: sample_ext_def)
  have r: "form_handler (?c n) [] = Inr (Modal (JStr ''hello''))" for n
    by (simp add: form_handler_def)
  have 3: "py_eq_int (JInt 3) MESSAGE_COMPONENT \<or> py_eq_int (JInt 3) MODAL_SUBMIT"
    by (simp add: module_defs)
  have 5: "py_eq_int (JInt 5) MESSAGE_COMPONENT \<or> py_eq_int (JInt 5) MODAL_SUBMIT"
    by (simp add: module_defs)
  show ?thesis
    using modal_only_for_components [OF v t 3 f h a r, of click_body]
      modal_only_for_components [OF v t 5 f h a r, of submit_body]
    by (simp add: module_defs)
qed

section \<open>The token cache\<close>

lemma fetch_token_expires_on:
  "fetch_token self now http = Inr t \<Longrightarrow> expires_on t = now + expires_in t / 2"
  by (auto simp: fetch_token_def Let_def split: if_splits sum.splits)

text \<open>
  C6, as stated, fails at the boundary. A token fetched at time 100 with a declared
  lifetime of 10 is stored with \<open>expires_on = 105\<close>. A call of \<open>auth_headers\<close> at time 105,
  where \<open>now >= expires_on\<close> holds, performs no fetch and returns the cached token: the
  test in the code is \<open>time.time() > expires_on\<close>.
\<close>

theorem token_reused_at_expiry:
  "auth_headers sample_discord 100 100 (Inr sample_token)
     = ([FetchToken], Inr [(''Authorization'', ''Bearer abc'')], cached_discord)
   \<and> discord_token cached_discord = Some (sample_token\<lparr>expires_on := 105\<rparr>)
   \<and> auth_headers cached_discord 105 105 (Inr sample_token)
     = ([], Inr [(''Authorization'', ''Bearer abc'')], cached_discord)"
  by (simp add: auth_headers_def fetch_token_def bearer_def cached_discord_def
      sample_discord_def sample_token_def Let_def)

text \<open>
  C6, amended. With no cached token, \<open>auth_headers\<close> calls \<open>fetch_token\<close> exactly once. With
  a cached token and \<open>now <= expires_on\<close> it performs no fetch, returns the header of the
  cached token and leaves the object unchanged. With a cached token and
  \<open>now > expires_on\<close> it calls \<open>fetch_token\<close> exactly once. Whenever it fetches and the fetch
  returns a token, that token replaces the slot as a whole, its header is returned, and
  its \<open>expires_on\<close> is the time of the fetch plus half of \<open>expires_in\<close>.
\<close>

theorem token_cache_refresh:
  "(discord_token self = None \<longrightarrow> fst (auth_headers self now now' http) = [FetchToken])
   \<and> (discord_token self = Some t \<and> now \<le> expires_on t \<longrightarrow>
        auth_headers self now now' http = ([], Inr (bearer t), self))
   \<and> (discord_token self = Some t \<and> expires_on t < now \<longrightarrow>
        fst (auth_headers self now now' http) = [FetchToken])
   \<and> (fst (auth_headers self now now' http) = [FetchToken] \<and>
        fetch_token self now' http = Inr t' \<longrightarrow>
        auth_headers self now now' http
          = ([FetchToken], Inr (bearer t'), self\<lparr>discord_token := Some t'\<rparr>) \<and>
        expires_on t' = now' + expires_in t' / 2)"
proof -
  have "expires_on t' = now' + expires_in t' / 2" if "fetch_token self now' http = Inr t'"
    using that by (rule fetch_token_expires_on)
  then show ?thesis
    by (auto simp: auth_headers_def Let_def split: option.splits sum.splits)
qed

theorem token_cache_refresh_witness:
  "fst (auth_headers sample_discord 100 100 (Inr sample_token)) = [FetchToken]
   \<and> auth_headers cached_discord 104 104 (Inr sample_token)
     = ([], Inr [(''Authorization'', ''Bearer abc'')], cached_discord)
   \<and> auth_headers cached_discord 106 107 (Inr sample_token)
     = ([FetchToken], Inr [(''Authorization'', ''Bearer abc'')],
        cached_discord\<lparr>discord_token := Some (sample_token\<lparr>expires_on := 112\<rparr>)\<rparr>)"
proof -
  let ?t = "sample_token\<lparr>expires_on := 105\<rparr>"
  have n: "discord_token sample_discord = None"
    by (simp add: sample_discord_def)
  have c: "discord_token cached_discord = Some ?t"
    by (simp add: cached_discord_def)
  have f: "fetch_token cached_discord 107 (Inr sample_token)
             = Inr (sample_token\<lparr>expires_on := 112\<rparr>)"
    by (simp add: fetch_token_def cached_discord_def sample_discord_def sample_token_def)
  have e: "expires_on ?t = 105"
    by simp
  show ?thesis
    using token_cache_refresh [of sample_discord 100 100 "Inr sample_token" ?t ?t]
      token_cache_refresh [of cached_discord 104 104 "Inr sample_token" ?t ?t]
      token_cache_refresh [of cached_discord 106 107 "Inr sample_token" ?t
                              "sample_token\<lparr>expires_on := 112\<rparr>"]
      n c f e
    by (simp add: bearer_def sample_token_def)
qed

section \<open>What leaves \<open>__call__\<close>\<close>

lemma call_of_request:
  assumes "read_request x env = Inr request"
  shows "call x self env =
           (case handle_request x self request of
              (t, Inl e) \<Rightarrow> (t, except_AbortError x e)
            | (t, Inr obj) \<Rightarrow>
                (case encode x obj of
                   Inl e \<Rightarrow> (t, except_AbortError x e)
                 | Inr (b, m) \<Rightarrow>
                     (t, Inr \<lparr>status = ''200 OK'',
                             response_headers = [(''Content-Type'', m)],
                             body = [b]\<rparr>)))"
  using assms
  by (simp add: call_def call_try_def then_do_def lift_def split: prod.splits sum.splits)

lemma call_raises:
  assumes "read_request x env = Inr request"
    and "snd (handle_request x self request) = Inl e"
  shows "snd (call x self env) = except_AbortError x e"
  using assms(2) unfolding call_of_request [OF assms(1)]
  by (cases "handle_request x self request") simp

lemma dispatch_autocomplete:
  assumes "py_get (json request) ''type'' = Inr ty"
    and "py_eq_int ty APPLICATION_COMMAND_AUTOCOMPLETE"
  shows "dispatch x self request
           = then_do ([ReadType], Inr ty) (\<lambda>t. run_autocomplete x self (json request))"
proof -
  have "\<not> py_eq_int ty PING" "\<not> py_eq_int ty APPLICATION_COMMAND"
    "\<not> py_eq_int ty MESSAGE_COMPONENT"
    using py_eq_int_other [OF assms(2)]
    by (simp_all add: PING_def APPLICATION_COMMAND_def MESSAGE_COMPONENT_def
        APPLICATION_COMMAND_AUTOCOMPLETE_def)
  with assms show ?thesis
    by (simp add: dispatch_def then_do_def)
qed

lemma run_handler_raises:
  assumes "from_data x data = Inr c"
    and "custom_id_handlers self (primary_id c) = Some h"
    and "create_handler_args x c h = Inr args"
    and "h c args = Inl e"
  shows "snd (run_handler x self data allow_modal) = Inl e"
  using assms by (simp add: run_handler_def then_do_def lift_def)

lemma run_command_registered:
  assumes "command_name_of data = Inr (JStr n)"
    and "discord_commands self n = Some c"
  shows "run_command x self data
           = ([LookupCommand (JStr n), RunCommand (JStr n)], make_context_and_run c data)"
  using assms by (simp add: run_command_def then_do_def lift_def dict_find_def)

lemma run_autocomplete_registered:
  assumes "command_name_of data = Inr (JStr n)"
    and "discord_commands self n = Some c"
  shows "run_autocomplete x self data
           = ([LookupCommand (JStr n), RunAutocomplete (JStr n)],
              make_context_and_run_autocomplete c data)"
  using assms by (simp add: run_autocomplete_def then_do_def lift_def dict_find_def)

lemma checks_are_not_runs: "list_all is_check t \<Longrightarrow> filter is_run t = []"
proof (induction t)
  case Nil
  then show ?case by simp
next
  case (Cons e t)
  then show ?case by (cases e) simp_all
qed

lemma read_request_fields:
  assumes "read_request x env = Inr request"
  shows "HTTP_X_SIGNATURE_ED25519 request = HTTP_X_SIGNATURE_ED25519 env"
    and "HTTP_X_SIGNATURE_TIMESTAMP request = HTTP_X_SIGNATURE_TIMESTAMP env"
    and "wsgi_input env = Inr (raw_data request)"
    and "\<exists>s. decode_utf8 x (raw_data request) = Inr s \<and> json_loads x s = Inr (json request)"
  using assms by (auto simp: read_request_def abort_def split: sum.splits)

subsection \<open>Unregistered and registered commands\<close>

text \<open>
  C4, as stated, fails for an unregistered name. The request is a correctly signed
  ApplicationCommand interaction with \<open>data.name = "unknown"\<close>, and \<open>unknown\<close> is not a key of
  the registry. \<open>__call__\<close> produces no response: the \<open>ValueError\<close> raised by \<open>run_command\<close>
  is not an \<open>AbortError\<close> and leaves \<open>__call__\<close>.
\<close>

theorem unknown_command_escapes:
  \<open>call (sample_ext (''1700000000'' @ unknown_body)) sample_discord
      (sample_environ unknown_body (Some sample_signature) (Some ''1700000000''))
    = ([Verify (''1700000000'' @ unknown_body), ReadType, LookupCommand (JStr ''unknown'')],
       Inl (ValueError ''Invalid command name: unknown''))\<close>
  by (simp add: call_def call_try_def read_request_def except_AbortError_def
      sample_defs module_defs)

text \<open>
  C4, amended. For a verified ApplicationCommand interaction with \<open>data.name = n\<close>: when
  \<open>n\<close> is not a key of the registry, no handler is called and \<open>__call__\<close> raises
  \<open>ValueError("Invalid command name: n")\<close>; when \<open>n\<close> is registered, the command's
  \<open>make_context_and_run\<close> is called exactly once and no other user code runs, and when it
  returns an object whose \<open>encode()\<close> gives \<open>(b, m)\<close> the response is status 200 with
  content type \<open>m\<close> and body \<open>b\<close>.
\<close>

theorem unknown_command_raises:
  assumes "read_request x env = Inr request"
    and "snd (verify_signature x self request) = Inr ()"
    and "py_get (json request) ''type'' = Inr ty"
    and "py_eq_int ty APPLICATION_COMMAND"
    and "command_name_of (json request) = Inr (JStr n)"
  shows "(discord_commands self n = None \<longrightarrow>
            call x self env
              = (fst (verify_signature x self request) @ [ReadType, LookupCommand (JStr n)],
                 Inl (ValueError (''Invalid command name: '' @ n))))
       \<and> (discord_commands self n = Some c \<longrightarrow>
            filter is_run (fst (call x self env)) = [RunCommand (JStr n)])
       \<and> (discord_commands self n = Some c \<and>
          make_context_and_run c (json request) = Inr obj \<and> encode x obj = Inr (b, m) \<longrightarrow>
            snd (call x self env)
              = Inr \<lparr>status = ''200 OK'', response_headers = [(''Content-Type'', m)],
                     body = [b]\<rparr>)"
proof -
  let ?tv = "fst (verify_signature x self request)"
  have tv: "filter is_run ?tv = []"
    using verify_signature_checks by (rule checks_are_not_runs)
  have hr: "handle_request x self request
              = (?tv @ ReadType # fst (run_command x self (json request)),
                 snd (run_command x self (json request)))"
    using handle_request_verified [OF assms(2)] dispatch_command [OF assms(3,4), of x self]
    by (simp add: then_do_Inr)
  have 1: "call x self env
             = (?tv @ [ReadType, LookupCommand (JStr n)],
                Inl (ValueError (''Invalid command name: '' @ n)))"
    if "discord_commands self n = None"
    using that assms(5) hr unfolding call_of_request [OF assms(1)]
    by (simp add: run_command_def then_do_def lift_def dict_find_def py_format_def
        except_AbortError_def)
  have 2: "filter is_run (fst (call x self env)) = [RunCommand (JStr n)]"
    if "discord_commands self n = Some c"
    using tv hr run_command_registered [OF assms(5) that, of x]
    unfolding call_of_request [OF assms(1)]
    by (simp split: sum.splits prod.splits)
  have 3: "snd (call x self env)
             = Inr \<lparr>status = ''200 OK'', response_headers = [(''Content-Type'', m)], body = [b]\<rparr>"
    if "discord_commands self n = Some c" "make_context_and_run c (json request) = Inr obj"
      "encode x obj = Inr (b, m)"
    using hr run_command_registered [OF assms(5) that(1), of x] that(2,3)
    unfolding call_of_request [OF assms(1)]
    by simp
  from 1 2 3 show ?thesis by blast
qed

theorem unknown_command_raises_witness:
  \<open>call (sample_ext (''1700000000'' @ unknown_body)) sample_discord
      (sample_environ unknown_body (Some sample_signature) (Some ''1700000000''))
    = ([Verify (''1700000000'' @ unknown_body), ReadType, LookupCommand (JStr ''unknown'')],
       Inl (ValueError ''Invalid command name: unknown''))
   \<and> filter is_run
       (fst (call (sample_ext (''1700000000'' @ greet_body)) sample_discord
              (sample_environ greet_body (Some sample_signature) (Some ''1700000000''))))
     = [RunCommand (JStr ''greet'')]
   \<and> snd (call (sample_ext (''1700000000'' @ greet_body)) sample_discord
              (sample_environ greet_body (Some sample_signature) (Some ''1700000000'')))
     = Inr \<lparr>status = ''200 OK'', response_headers = [(''Content-Type'', ''application/json'')],
            body = [''"hello"'']\<rparr>\<close>
proof -
  let ?x = "\<lambda>b. sample_ext (''1700000000'' @ b)"
  let ?env = "\<lambda>b. sample_environ b (Some sample_signature) (Some ''1700000000'')"
  have r: "read_request (?x unknown_body) (?env unknown_body)
             = Inr (sample_request unknown_body (command_json 2 ''unknown''))"
    "read_request (?x greet_body) (?env greet_body)
             = Inr (sample_request greet_body (command_json 2 ''greet''))"
    by (simp_all add: read_request_def sample_defs)
  have v: "snd (verify_signature (?x b) d (sample_request b j)) = Inr ()"
    if "DONT_VALIDATE_SIGNATURE d = False" for b j d
    using that by (simp add: sample_defs module_defs)
  have d: "DONT_VALIDATE_SIGNATURE sample_discord = False"
    by (simp add: sample_discord_def)
  have t: "py_get (json (sample_request b (command_json 2 n))) ''type'' = Inr (JInt 2)" for b n
    by (simp add: sample_defs module_defs)
  have a: "py_eq_int (JInt 2) APPLICATION_COMMAND"
    by (simp add: module_defs)
  have n: "command_name_of (json (sample_request b (command_json 2 n))) = Inr (JStr n)" for b n
    by (simp add: sample_defs module_defs)
  have u: "discord_commands sample_discord ''unknown'' = None"
    by (simp add: sample_discord_def)
  have g: "discord_commands sample_discord ''greet'' = Some greet"
    "make_context_and_run greet (json (sample_request greet_body (command_json 2 ''greet'')))
       = Inr (Message (JStr ''hello''))"
    "encode (?x greet_body) (Message (JStr ''hello'')) = Inr (''\"hello\"'', ''application/json'')"
    by (simp_all add: encode_def sample_defs)
  show ?thesis
    using unknown_command_raises [OF r(1) v [OF d] t a n, of greet] u
      unknown_command_raises [OF r(2) v [OF d] t a n, of greet] g
    by (simp add: sample_defs module_defs)
qed

subsection \<open>Exceptions raised by handlers\<close>

text \<open>
  C5, as stated, fails. The request is a correctly signed ApplicationCommand interaction
  for the registered command \<open>boom\<close>, whose handler raises \<open>ValueError("boom")\<close>. \<open>__call__\<close>
  produces no response: the exception leaves \<open>__call__\<close> unchanged.
\<close>

theorem handler_exception_escapes:
  \<open>call (sample_ext (''1700000000'' @ boom_body)) sample_discord
      (sample_environ boom_body (Some sample_signature) (Some ''1700000000''))
    = ([Verify (''1700000000'' @ boom_body), ReadType,
        LookupCommand (JStr ''boom''), RunCommand (JStr ''boom'')],
       Inl (ValueError ''boom''))\<close>
  by (simp add: call_def call_try_def read_request_def except_AbortError_def
      sample_defs module_defs)

text \<open>
  C5, amended. Take a verified request. Whenever \<open>handle_request\<close> raises \<open>e\<close>, and in
  particular whenever the handler of a registered command, the autocomplete handler of
  a registered command or a registered custom-id handler raises \<open>e\<close>: if \<open>e\<close> is an
  \<open>AbortError\<close>, \<open>__call__\<close> returns the response whose status is the error's \<open>http_code\<close>
  and whose body is \<open>{"error": http_code}\<close>; any other exception leaves \<open>__call__\<close>
  unchanged.
\<close>

theorem exceptions_at_the_boundary:
  assumes "read_request x env = Inr request"
    and "snd (verify_signature x self request) = Inr ()"
    and "py_get (json request) ''type'' = Inr ty"
  shows "(snd (handle_request x self request) = Inl e \<longrightarrow>
            snd (call x self env)
              = (case e of AbortError http_code \<Rightarrow> Inr (error_response x http_code) | _ \<Rightarrow> Inl e))
       \<and> (py_eq_int ty APPLICATION_COMMAND \<and> command_name_of (json request) = Inr (JStr n) \<and>
          discord_commands self n = Some c \<and> make_context_and_run c (json request) = Inl e \<longrightarrow>
            snd (call x self env)
              = (case e of AbortError http_code \<Rightarrow> Inr (error_response x http_code) | _ \<Rightarrow> Inl e))
       \<and> (py_eq_int ty APPLICATION_COMMAND_AUTOCOMPLETE \<and>
          command_name_of (json request) = Inr (JStr n) \<and> discord_commands self n = Some c \<and>
          make_context_and_run_autocomplete c (json request) = Inl e \<longrightarrow>
            snd (call x self env)
              = (case e of AbortError http_code \<Rightarrow> Inr (error_response x http_code) | _ \<Rightarrow> Inl e))
       \<and> ((py_eq_int ty MESSAGE_COMPONENT \<or> py_eq_int ty MODAL_SUBMIT) \<and>
          from_data x (json request) = Inr cx \<and> custom_id_handlers self (primary_id cx) = Some h \<and>
          create_handler_args x cx h = Inr args \<and> h cx args = Inl e \<longrightarrow>
            snd (call x self env)
              = (case e of AbortError http_code \<Rightarrow> Inr (error_response x http_code) | _ \<Rightarrow> Inl e))"
proof -
  let ?out = "case e of AbortError http_code \<Rightarrow> Inr (error_response x http_code) | _ \<Rightarrow> Inl e"
  have b: "snd (call x self env) = ?out" if "snd (handle_request x self request) = Inl e"
    using call_raises [OF assms(1) that] by (simp add: except_AbortError_def)
  note hv = handle_request_verified [OF assms(2)]
  have 2: "snd (handle_request x self request) = Inl e"
    if "py_eq_int ty APPLICATION_COMMAND" "command_name_of (json request) = Inr (JStr n)"
      "discord_commands self n = Some c" "make_context_and_run c (json request) = Inl e"
    using hv dispatch_command [OF assms(3) that(1), of x self]
      run_command_registered [OF that(2,3), of x] that(4)
    by (simp add: then_do_Inr)
  have 3: "snd (handle_request x self request) = Inl e"
    if "py_eq_int ty APPLICATION_COMMAND_AUTOCOMPLETE"
      "command_name_of (json request) = Inr (JStr n)"
      "discord_commands self n = Some c"
      "make_context_and_run_autocomplete c (json request) = Inl e"
    using hv dispatch_autocomplete [OF assms(3) that(1), of x self]
      run_autocomplete_registered [OF that(2,3), of x] that(4)
    by (simp add: then_do_Inr)
  have 4: "snd (handle_request x self request) = Inl e"
    if "py_eq_int ty MESSAGE_COMPONENT \<or> py_eq_int ty MODAL_SUBMIT"
      "from_data x (json request) = Inr cx" "custom_id_handlers self (primary_id cx) = Some h"
      "create_handler_args x cx h = Inr args" "h cx args = Inl e"
    using that(1)
  proof
    assume t: "py_eq_int ty MESSAGE_COMPONENT"
    show ?thesis
      using hv dispatch_component [OF assms(3) t, of x self]
        run_handler_raises [OF that(2-5), of True]
      by (simp add: then_do_Inr)
  next
    assume t: "py_eq_int ty MODAL_SUBMIT"
    show ?thesis
      using hv dispatch_modal_submit [OF assms(3) t, of x self]
        run_handler_raises [OF that(2-5), of False]
      by (simp add: then_do_Inr)
  qed
  from b 2 3 4 show ?thesis by blast
qed

theorem exceptions_at_the_boundary_witness:
  \<open>snd (handle_request (sample_ext (''1700000000'' @ boom_body)) sample_discord
          (sample_request boom_body (command_json 2 ''boom'')))
     = Inl (ValueError ''boom'')
   \<and> snd (call (sample_ext (''1700000000'' @ boom_body)) sample_discord
          (sample_environ boom_body (Some sample_signature) (Some ''1700000000'')))
     = Inl (ValueError ''boom'')\<close>
proof -
  let ?x = "sample_ext (''1700000000'' @ boom_body)"
  let ?env = "sample_environ boom_body (Some sample_signature) (Some ''1700000000'')"
  let ?req = "sample_request boom_body (command_json 2 ''boom'')"
  have r: "read_request ?x ?env = Inr ?req"
    by (simp add: read_request_def sample_defs)
  have v: "snd (verify_signature ?x sample_discord ?req) = Inr ()"
    by (simp add: sample_defs module_defs)
  have t: "py_get (json ?req) ''type'' = Inr (JInt 2)"
    by (simp add: sample_defs module_defs)
  have a: "py_eq_int (JInt 2) APPLICATION_COMMAND"
    by (simp add: module_defs)
  have n: "command_name_of (json ?req) = Inr (JStr ''boom'')"
    by (simp add: sample_defs module_defs)
  have c: "discord_commands sample_discord ''boom'' = Some boom"
    "make_context_and_run boom (json ?req) = Inl (ValueError ''boom'')"
    by (simp_all add: sample_discord_def boom_def)
  have h: "snd (handle_request ?x sample_discord ?req) = Inl (ValueError ''boom'')"
    by (simp add: sample_defs module_defs)
  show ?thesis
    using exceptions_at_the_boundary [OF r v t, of "ValueError ''boom''" "''boom''" boom] a n c h
    by simp
qed

subsection \<open>Authentication failures\<close>

text \<open>
  C2, as stated, fails. Two requests fail authentication, the first for a missing
  signature header and the second for a signature that passes neither check. Their
  responses differ, and each names the check that failed, in the status line and in the
  body.
\<close>

theorem auth_failures_are_distinguishable:
  \<open>snd (call (sample_ext []) sample_discord
          (sample_environ ping_compact None (Some ''1700000000'')))
     = Inr \<lparr>status = ''401 Missing signature or timestamp'',
            response_headers = [(''Content-Type'', ''application/json'')],
            body = [''{"error": "401 Missing signature or timestamp"}'']\<rparr>
   \<and> snd (call (sample_ext []) sample_discord
          (sample_environ ping_compact (Some sample_signature) (Some ''1700000000'')))
     = Inr \<lparr>status = ''401 Incorrect Signature'',
            response_headers = [(''Content-Type'', ''application/json'')],
            body = [''{"error": "401 Incorrect Signature"}'']\<rparr>
   \<and> snd (call (sample_ext []) sample_discord
          (sample_environ ping_compact None (Some ''1700000000'')))
     \<noteq> snd (call (sample_ext []) sample_discord
          (sample_environ ping_compact (Some sample_signature) (Some ''1700000000'')))\<close>
  by (simp add: call_def call_try_def read_request_def except_AbortError_def error_response_def
      sample_defs module_defs bytes_repr_def repr_byte_def)

text \<open>
  C2, amended. With signature validation enabled and a body that parses: when the
  signature header or the timestamp header is absent, no check is made and the response
  has the status line \<open>401 Missing signature or timestamp\<close>; when both are present and the
  signature passes neither the check on the raw body nor the retry, the response has the
  status line \<open>401 Incorrect Signature\<close>. In both cases the content type is
  \<open>application/json\<close> and the body is \<open>json.dumps({"error": status})\<close> for that status line.
\<close>

theorem auth_failure_responses:
  assumes "read_request x env = Inr request"
    and "\<not> DONT_VALIDATE_SIGNATURE self"
  shows "(HTTP_X_SIGNATURE_ED25519 env = None \<or> HTTP_X_SIGNATURE_TIMESTAMP env = None \<longrightarrow>
            call x self env
              = ([], Inr \<lparr>status = ''401 Missing signature or timestamp'',
                         response_headers = [(''Content-Type'', ''application/json'')],
                         body = [json_dumps x
                                   (JObj [(''error'', JStr ''401 Missing signature or timestamp'')])]\<rparr>))
       \<and> (HTTP_X_SIGNATURE_ED25519 env = Some sg \<and> HTTP_X_SIGNATURE_TIMESTAMP env = Some ts \<and>
          decode_utf8 x (raw_data request) = Inr s \<and>
          VerifyKey x (discord_public_key self) = None \<and>
          verify x (discord_public_key self) (ts @ s) sg = BadSignatureError \<and>
          verify x (discord_public_key self)
            (ts @ bytes_repr (json_dumps_compact x (json request))) sg = BadSignatureError \<longrightarrow>
            snd (call x self env)
              = Inr \<lparr>status = ''401 Incorrect Signature'',
                     response_headers = [(''Content-Type'', ''application/json'')],
                     body = [json_dumps x (JObj [(''error'', JStr ''401 Incorrect Signature'')])]\<rparr>)"
proof -
  note f = read_request_fields [OF assms(1)]
  have 1: "handle_request x self request
             = ([], Inl (AbortError ''401 Missing signature or timestamp''))"
    if "HTTP_X_SIGNATURE_ED25519 env = None \<or> HTTP_X_SIGNATURE_TIMESTAMP env = None"
    using that assms(2) f(1,2)
    by (auto simp: handle_request_def verify_signature_def then_do_def abort_def dec_401
        split: option.splits)
  have 2: "snd (handle_request x self request) = Inl (AbortError ''401 Incorrect Signature'')"
    if "HTTP_X_SIGNATURE_ED25519 env = Some sg" "HTTP_X_SIGNATURE_TIMESTAMP env = Some ts"
      "decode_utf8 x (raw_data request) = Inr s" "VerifyKey x (discord_public_key self) = None"
      "verify x (discord_public_key self) (ts @ s) sg = BadSignatureError"
      "verify x (discord_public_key self)
         (ts @ bytes_repr (json_dumps_compact x (json request))) sg = BadSignatureError"
    using that assms(2) f
    by (auto simp: handle_request_def verify_signature_def verify_fallback_def
        canonical_message_def then_do_def abort_def dec_401 Let_def)
  have 3: "call x self env = ([], Inr (error_response x ''401 Missing signature or timestamp''))"
    if "HTTP_X_SIGNATURE_ED25519 env = None \<or> HTTP_X_SIGNATURE_TIMESTAMP env = None"
    using 1 [OF that] unfolding call_of_request [OF assms(1)]
    by (simp add: except_AbortError_def)
  have 4: "snd (call x self env) = Inr (error_response x ''401 Incorrect Signature'')"
    if "HTTP_X_SIGNATURE_ED25519 env = Some sg" "HTTP_X_SIGNATURE_TIMESTAMP env = Some ts"
      "decode_utf8 x (raw_data request) = Inr s" "VerifyKey x (discord_public_key self) = None"
      "verify x (discord_public_key self) (ts @ s) sg = BadSignatureError"
      "verify x (discord_public_key self)
         (ts @ bytes_repr (json_dumps_compact x (json request))) sg = BadSignatureError"
    using call_raises [OF assms(1) 2 [OF that]] by (simp add: except_AbortError_def)
  from 3 4 show ?thesis
    unfolding error_response_def by blast
qed

theorem auth_failure_responses_witness:
  \<open>call (sample_ext []) sample_discord
      (sample_environ greet_body (Some sample_signature) None)
     = ([], Inr \<lparr>status = ''401 Missing signature or timestamp'',
                response_headers = [(''Content-Type'', ''application/json'')],
                body = [''{"error": "401 Missing signature or timestamp"}'']\<rparr>)
   \<and> snd (call (sample_ext []) sample_discord
          (sample_environ ping_spaced (Some sample_signature) (Some ''1700000000'')))
     = Inr \<lparr>status = ''401 Incorrect Signature'',
            response_headers = [(''Content-Type'', ''application/json'')],
            body = [''{"error": "401 Incorrect Signature"}'']\<rparr>\<close>
proof -
  let ?x = "sample_ext []"
  let ?envA = "sample_environ greet_body (Some sample_signature) None"
  let ?envB = "sample_environ ping_spaced (Some sample_signature) (Some ''1700000000'')"
  let ?reqB = "sample_request ping_spaced (JObj [(''type'', JInt 1)])"
  have rA: "read_request ?x ?envA
              = Inr ((sample_request greet_body (command_json 2 ''greet''))
                       \<lparr>HTTP_X_SIGNATURE_TIMESTAMP := None\<rparr>)"
    by (simp add: read_request_def sample_defs)
  have rB: "read_request ?x ?envB = Inr ?reqB"
    by (simp add: read_request_def sample_defs)
  have d: "\<not> DONT_VALIDATE_SIGNATURE sample_discord"
    by (simp add: sample_discord_def)
  have a: "HTTP_X_SIGNATURE_ED25519 ?envA = None \<or> HTTP_X_SIGNATURE_TIMESTAMP ?envA = None"
    by (simp add: sample_environ_def)
  have b: "HTTP_X_SIGNATURE_ED25519 ?envB = Some sample_signature"
    "HTTP_X_SIGNATURE_TIMESTAMP ?envB = Some ''1700000000''"
    "decode_utf8 ?x (raw_data ?reqB) = Inr ping_spaced"
    "VerifyKey ?x (discord_public_key sample_discord) = None"
    "verify ?x (discord_public_key sample_discord) (''1700000000'' @ ping_spaced) sample_signature
       = BadSignatureError"
    "verify ?x (discord_public_key sample_discord)
       (''1700000000'' @ bytes_repr (json_dumps_compact ?x (json ?reqB))) sample_signature
       = BadSignatureError"
    by (simp_all add: sample_environ_def sample_request_def sample_ext_def signed_for_def)
  show ?thesis
    using auth_failure_responses [OF rA d, of sample_signature "''1700000000''" ping_spaced] a
      auth_failure_responses [OF rB d, of sample_signature "''1700000000''" ping_spaced] b
    by (simp add: sample_ext_def sample_dumps_def)
qed

end
